theory Spec2Isabelle
  imports
    Main
    "HOL-Library.Word"
    "HOL-Library.Char_ord"
    "HOL-Library.List_Lexorder"
    "HOL-Library.Product_Lexorder"
begin

section \<open>Python values and library functions used by paion\_player.py\<close>

text \<open>
  The player reads \<^verbatim>\<open>manifest.json\<close> with \<^verbatim>\<open>json.loads\<close>. The values that can come
  out of it are modelled by \<open>json\<close>: \<open>JNull\<close> is Python's \<^verbatim>\<open>None\<close>, \<open>JInt\<close> an unbounded
  \<^verbatim>\<open>int\<close>, \<open>JFloat\<close> a \<^verbatim>\<open>float\<close> given by its 64 IEEE-754 bits, \<open>JObj\<close> a \<^verbatim>\<open>dict\<close> in
  insertion order (keys of a parsed JSON object are always \<^verbatim>\<open>str\<close>).
  Strings are ASCII character lists; \<open>lower\<close> is \<^verbatim>\<open>str.lower\<close> on ASCII.
\<close>

type_synonym bytes = "8 word list"

datatype json =
    JNull
  | JBool bool
  | JInt int
  | JFloat "64 word"
  | JStr string
  | JArr "json list"
  | JObj "(string \<times> json) list"

text \<open>An exception object, identified by what \<^verbatim>\<open>str(e)\<close> gives.\<close>

datatype py_exception = PyException string

fun exc_str :: "py_exception \<Rightarrow> string" where
  "exc_str (PyException m) = m"

definition lower_char :: "char \<Rightarrow> char" where
  "lower_char c =
     (if CHR ''A'' \<le> c \<and> c \<le> CHR ''Z'' then char_of (of_char c + (32::nat)) else c)"

definition lower :: "string \<Rightarrow> string" where
  "lower s = map lower_char s"

text \<open>\<^verbatim>\<open>str(n)\<close> for an \<^verbatim>\<open>int\<close>: decimal digits, with a minus sign when negative.\<close>

definition digit_char :: "nat \<Rightarrow> char" where
  "digit_char d = char_of (48 + d)"

fun str_nat :: "nat \<Rightarrow> string" where
  "str_nat n = (if n < 10 then [digit_char n] else str_nat (n div 10) @ [digit_char (n mod 10)])"

declare str_nat.simps [simp del]

definition str_int :: "int \<Rightarrow> string" where
  "str_int i = (if i < 0 then CHR ''-'' # str_nat (nat (- i)) else str_nat (nat i))"

text \<open>
  The functions of the standard library that the model takes as given:
  \<^verbatim>\<open>json.loads(raw.decode("utf-8"))\<close> (which may raise),
  \<^verbatim>\<open>hashlib.sha256(data).hexdigest()\<close>, and \<^verbatim>\<open>str\<close> on floats, lists and dicts.
\<close>

record pylib =
  json_loads :: "bytes \<Rightarrow> py_exception + json"
  sha256_hexdigest :: "bytes \<Rightarrow> string"
  repr_other :: "json \<Rightarrow> string"

text \<open>\<^verbatim>\<open>str(v)\<close>, which is also what an f-string prints for these types.\<close>

fun py_str :: "pylib \<Rightarrow> json \<Rightarrow> string" where
  "py_str L (JStr s) = s"
| "py_str L JNull = ''None''"
| "py_str L (JBool b) = (if b then ''True'' else ''False'')"
| "py_str L (JInt i) = str_int i"
| "py_str L v = repr_other L v"

text \<open>Truthiness, as \<^verbatim>\<open>bool(v)\<close>, \<^verbatim>\<open>if v\<close> and \<^verbatim>\<open>v or w\<close> see it. A float is false when it is
  \<open>+0.0\<close> or \<open>-0.0\<close>: all bits but the sign are zero.\<close>

fun truthy :: "json \<Rightarrow> bool" where
  "truthy JNull = False"
| "truthy (JBool b) = b"
| "truthy (JInt i) = (i \<noteq> 0)"
| "truthy (JFloat w) = (push_bit 1 w \<noteq> 0)"
| "truthy (JStr s) = (s \<noteq> [])"
| "truthy (JArr xs) = (xs \<noteq> [])"
| "truthy (JObj kvs) = (kvs \<noteq> [])"

text \<open>\<^verbatim>\<open>isinstance(v, int)\<close>: \<^verbatim>\<open>bool\<close> is a subclass of \<^verbatim>\<open>int\<close> in Python, with
  \<^verbatim>\<open>True == 1\<close> and \<^verbatim>\<open>False == 0\<close>.\<close>

fun isinstance_int :: "json \<Rightarrow> bool" where
  "isinstance_int (JInt i) = True"
| "isinstance_int (JBool b) = True"
| "isinstance_int v = False"

fun int_value :: "json \<Rightarrow> int" where
  "int_value (JInt i) = i"
| "int_value (JBool b) = (if b then 1 else 0)"
| "int_value v = 0"

text \<open>\<^verbatim>\<open>type(v).__name__\<close>, as it appears in the message of an \<^verbatim>\<open>AttributeError\<close>.\<close>

fun type_name :: "json \<Rightarrow> string" where
  "type_name JNull = ''NoneType''"
| "type_name (JBool b) = ''bool''"
| "type_name (JInt i) = ''int''"
| "type_name (JFloat w) = ''float''"
| "type_name (JStr s) = ''str''"
| "type_name (JArr xs) = ''list''"
| "type_name (JObj kvs) = ''dict''"

definition no_attribute_get :: "json \<Rightarrow> py_exception" where
  "no_attribute_get v =
     PyException ([CHR 0x27] @ type_name v @ [CHR 0x27] @ '' object has no attribute '' @
                  [CHR 0x27] @ ''get'' @ [CHR 0x27])"

text \<open>\<^verbatim>\<open>isinstance(v, dict)\<close>, and the items of a dict in their stored order.\<close>

fun isinstance_dict :: "json \<Rightarrow> bool" where
  "isinstance_dict (JObj kvs) = True"
| "isinstance_dict v = False"

fun dict_items :: "json \<Rightarrow> (string \<times> json) list" where
  "dict_items (JObj kvs) = kvs"
| "dict_items v = []"

text \<open>\<^verbatim>\<open>d.get(k, default)\<close> on a dict.\<close>

definition dict_get :: "(string \<times> json) list \<Rightarrow> string \<Rightarrow> json \<Rightarrow> json" where
  "dict_get kvs k dflt = (case map_of kvs k of None \<Rightarrow> dflt | Some v \<Rightarrow> v)"

section \<open>normalize\_verify\<close>

text \<open>One entry of the \<^verbatim>\<open>details\<close> list: the dict \<^verbatim>\<open>{"ok": .., "path": .., "reason": ..}\<close>
  that \<^verbatim>\<open>get_track_info\<close> builds for every check.\<close>

record detail =
  d_ok :: bool
  d_path :: string
  d_reason :: string

definition normalize_verify :: "detail list \<Rightarrow> bool \<Rightarrow> bool \<times> string \<times> bool" where
  "normalize_verify details original_ok =
     (let fails = filter (\<lambda>d. \<not> d_ok d) details in
      if fails = [] then
        (original_ok, (if original_ok then ''INTACT'' else ''TAMPERED''), False)
      else
        let non_manifest_fails = filter (\<lambda>f. d_path f \<noteq> ''manifest.json'') fails;
            manifest_fails = filter (\<lambda>f. d_path f = ''manifest.json'') fails
        in if non_manifest_fails \<noteq> [] then (False, ''TAMPERED'', False)
           else if manifest_fails \<noteq> [] then (True, ''INTACT (MANIFEST WARN)'', True)
           else (original_ok, (if original_ok then ''INTACT'' else ''TAMPERED''), False))"

section \<open>The built-in verifier\<close>

text \<open>
  An opened \<^verbatim>\<open>zipfile.ZipFile\<close>: \<open>namelist\<close> is \<^verbatim>\<open>z.namelist()\<close> in archive order, and
  \<open>zread z n\<close> is \<^verbatim>\<open>z.read(n)\<close> for a member \<open>n\<close>, which raises when the entry cannot be
  decompressed (bad CRC, unsupported compression, encryption). The code only reads
  members it has found in the name list.
\<close>

record zip_file =
  namelist :: "string list"
  zread :: "string \<Rightarrow> py_exception + bytes"

record BuiltinCheck =
  c_ok :: bool
  c_path :: string
  c_reason :: string

definition mk_check :: "bool \<Rightarrow> string \<Rightarrow> string \<Rightarrow> BuiltinCheck" where
  "mk_check b p r = \<lparr>c_ok = b, c_path = p, c_reason = r\<rparr>"

text \<open>The variables the loop over \<^verbatim>\<open>hashed_files.items()\<close> updates.\<close>

record loop_state =
  checks :: "BuiltinCheck list"
  non_manifest_failed :: bool
  manifest_failed :: bool

definition record_fail :: "loop_state \<Rightarrow> string \<Rightarrow> string \<Rightarrow> loop_state" where
  "record_fail st p r =
     (let st' = (if p = ''manifest.json'' then st\<lparr>manifest_failed := True\<rparr>
                 else st\<lparr>non_manifest_failed := True\<rparr>)
      in st'\<lparr>checks := checks st' @ [mk_check False p r]\<rparr>)"

text \<open>
  One iteration of the loop. The key \<open>relpath\<close> of a parsed JSON object is a \<^verbatim>\<open>str\<close>, so
  the \<^verbatim>\<open>"invalid path key"\<close> branch cannot be taken. \<open>Inl e\<close>: \<^verbatim>\<open>z.read\<close> raised \<open>e\<close>, which
  leaves the loop for the handler of \<^verbatim>\<open>builtin_verify_aifm\<close>.
\<close>

definition check_entry ::
  "pylib \<Rightarrow> zip_file \<Rightarrow> loop_state \<Rightarrow> string \<times> json \<Rightarrow> py_exception + loop_state" where
  "check_entry L z st item =
     (let relpath = fst item; meta = snd item in
      if relpath \<notin> set (namelist z) then Inr (record_fail st relpath ''missing file'')
      else
        let expected_hash =
              (if isinstance_dict meta
               then lower (py_str L (dict_get (dict_items meta) ''sha256'' (JStr '''')))
               else '''');
            expected_bytes =
              (if isinstance_dict meta then dict_get (dict_items meta) ''bytes'' JNull else JNull)
        in case zread z relpath of
             Inl e \<Rightarrow> Inl e
           | Inr data \<Rightarrow>
               let actual_bytes = int (length data) in
               if isinstance_int expected_bytes \<and> actual_bytes \<noteq> int_value expected_bytes then
                 Inr (record_fail st relpath
                        (''bytes mismatch: '' @ str_int actual_bytes @ '' != '' @
                         py_str L expected_bytes))
               else
                 let h = lower (sha256_hexdigest L data) in
                 if expected_hash \<noteq> [] \<and> h \<noteq> expected_hash then
                   Inr (record_fail st relpath ''sha256 mismatch'')
                 else Inr (st\<lparr>checks := checks st @ [mk_check True relpath '''']\<rparr>))"

fun check_loop ::
  "pylib \<Rightarrow> zip_file \<Rightarrow> loop_state \<Rightarrow> (string \<times> json) list \<Rightarrow> py_exception + loop_state" where
  "check_loop L z st [] = Inr st"
| "check_loop L z st (item # items) =
     (case check_entry L z st item of
        Inl e \<Rightarrow> Inl e
      | Inr st' \<Rightarrow> check_loop L z st' items)"

text \<open>The check the loop body appends for one entry, taken on its own.\<close>

definition init_state :: loop_state where
  "init_state = \<lparr>checks = [], non_manifest_failed = False, manifest_failed = False\<rparr>"

definition entry_check :: "pylib \<Rightarrow> zip_file \<Rightarrow> string \<times> json \<Rightarrow> py_exception + BuiltinCheck" where
  "entry_check L z item =
     (case check_entry L z init_state item of
        Inl e \<Rightarrow> Inl e
      | Inr st \<Rightarrow> Inr (last (checks st)))"

text \<open>\<^verbatim>\<open>manifest.get("integrity", {}) if isinstance(manifest, dict) else {}\<close>\<close>

definition manifest_integrity :: "json \<Rightarrow> json" where
  "manifest_integrity manifest =
     (if isinstance_dict manifest then dict_get (dict_items manifest) ''integrity'' (JObj [])
      else JObj [])"

text \<open>The body of the \<^verbatim>\<open>with zipfile.ZipFile(..) as z:\<close> block; \<open>Inl e\<close> when it raises \<open>e\<close>.
  Calling \<^verbatim>\<open>.get\<close> on an \<^verbatim>\<open>integrity\<close> value that is not a dict raises \<^verbatim>\<open>AttributeError\<close>.\<close>

definition verify_opened :: "pylib \<Rightarrow> zip_file \<Rightarrow> py_exception + bool \<times> BuiltinCheck list" where
  "verify_opened L z =
     (if ''manifest.json'' \<notin> set (namelist z) then
        Inr (False, [mk_check False ''manifest.json'' ''missing manifest.json''])
      else case zread z ''manifest.json'' of
        Inl e \<Rightarrow> Inl e
      | Inr raw \<Rightarrow>
        (case json_loads L raw of
           Inl e \<Rightarrow> Inl e
         | Inr manifest \<Rightarrow>
             let integrity = manifest_integrity manifest in
             if \<not> isinstance_dict integrity then Inl (no_attribute_get integrity)
             else
               let algo = dict_get (dict_items integrity) ''algorithm'' (JStr ''sha256'');
                   hashed_files = dict_get (dict_items integrity) ''hashed_files'' (JObj [])
               in if lower (py_str L algo) \<noteq> ''sha256'' then
                    Inr (False, [mk_check False ''integrity.algorithm''
                                   (''unsupported algorithm: '' @ py_str L algo)])
                  else if \<not> isinstance_dict hashed_files \<or> \<not> truthy hashed_files then
                    Inr (False, [mk_check False ''integrity.hashed_files''
                                   ''missing/empty hashed_files''])
                  else
                    (case check_loop L z init_state (dict_items hashed_files) of
                       Inl e \<Rightarrow> Inl e
                     | Inr st \<Rightarrow>
                         if non_manifest_failed st then Inr (False, checks st)
                         else if manifest_failed st then Inr (True, checks st)
                         else Inr (True, checks st))))"

text \<open>
  \<^verbatim>\<open>builtin_verify_aifm(aifm_path)\<close>. The file system is the function \<open>ZipFile\<close>, which gives
  for a path what \<^verbatim>\<open>zipfile.ZipFile(aifm_path, "r")\<close> does: an opened archive, or the
  exception it raises. Every exception ends in the \<^verbatim>\<open>except Exception as e\<close> handler.
\<close>

definition builtin_verify_aifm ::
  "pylib \<Rightarrow> (string \<Rightarrow> py_exception + zip_file) \<Rightarrow> string \<Rightarrow> bool \<times> BuiltinCheck list" where
  "builtin_verify_aifm L ZipFile aifm_path =
     (case (case ZipFile aifm_path of Inl e \<Rightarrow> Inl e | Inr z \<Rightarrow> verify_opened L z) of
        Inl e \<Rightarrow> (False, [mk_check False ''builtin_verify'' (exc_str e)])
      | Inr r \<Rightarrow> r)"

section \<open>Manifest lookup\<close>

text \<open>\<^verbatim>\<open>s.split(c)\<close> for a one-character separator: never empty, \<^verbatim>\<open>"".split(".") == [""]\<close>.\<close>

fun split_on :: "char \<Rightarrow> string \<Rightarrow> string list" where
  "split_on c [] = [[]]"
| "split_on c (x # xs) =
     (if x = c then [] # split_on c xs
      else (case split_on c xs of p # ps \<Rightarrow> (x # p) # ps | [] \<Rightarrow> [[x]]))"

fun safe_get_parts :: "json \<Rightarrow> string list \<Rightarrow> json \<Rightarrow> json" where
  "safe_get_parts cur [] dflt = cur"
| "safe_get_parts cur (part # parts) dflt =
     (case cur of
        JObj kvs \<Rightarrow>
          (case map_of kvs part of
             Some v \<Rightarrow> safe_get_parts v parts dflt
           | None \<Rightarrow> dflt)
      | _ \<Rightarrow> dflt)"

definition safe_get :: "json \<Rightarrow> string \<Rightarrow> json \<Rightarrow> json" where
  "safe_get d p dflt = safe_get_parts d (split_on CHR ''.'' p) dflt"

definition read_manifest_from_aifm ::
  "pylib \<Rightarrow> (string \<Rightarrow> py_exception + zip_file) \<Rightarrow> string \<Rightarrow> py_exception + json" where
  "read_manifest_from_aifm L ZipFile aifm_path =
     (case ZipFile aifm_path of
        Inl e \<Rightarrow> Inl e
      | Inr z \<Rightarrow>
          if ''manifest.json'' \<notin> set (namelist z) then Inr (JObj [])
          else (case zread z ''manifest.json'' of
                  Inl e \<Rightarrow> Inl e
                | Inr raw \<Rightarrow> json_loads L raw))"

text \<open>\<^verbatim>\<open>v1 or v2 or ... or dflt\<close>: the first operand that is true, else the last one.\<close>

fun or_chain :: "json list \<Rightarrow> json \<Rightarrow> json" where
  "or_chain [] dflt = dflt"
| "or_chain (v # vs) dflt = (if truthy v then v else or_chain vs dflt)"

text \<open>The shape of every metadata field in \<^verbatim>\<open>get_track_info\<close>:
  \<^verbatim>\<open>safe_get(manifest, p1) or safe_get(manifest, p2) or ... or dflt\<close>.\<close>

definition lookup :: "json \<Rightarrow> string list \<Rightarrow> json \<Rightarrow> json" where
  "lookup manifest candidates dflt =
     or_chain (map (\<lambda>p. safe_get manifest p JNull) candidates) dflt"

text \<open>The placeholder is an em dash (U+2014), written here as its UTF-8 bytes.\<close>

definition placeholder :: string where
  "placeholder = [CHR 0xE2, CHR 0x80, CHR 0x94]"

record fields_info =
  author :: string
  ai_system :: string
  tier :: string
  mode :: string
  origin_url :: string

definition str_or :: "pylib \<Rightarrow> json \<Rightarrow> string \<Rightarrow> string" where
  "str_or L v dflt = (if truthy v then py_str L v else dflt)"

definition track_fields :: "pylib \<Rightarrow> json \<Rightarrow> fields_info" where
  "track_fields L manifest =
     (let a = lookup manifest [''creator.name'', ''author''] (JStr placeholder);
          s = lookup manifest [''origin.ai_platform'', ''ai.system'', ''ai_system'']
                (JStr placeholder);
          t = lookup manifest [''verification.tier'', ''tier''] (JStr placeholder);
          m = lookup manifest [''mode'', ''aifx.governance.mode''] (JStr placeholder);
          u = lookup manifest [''origin.primary_url'', ''origin_url'', ''origin.url''] (JStr '''')
      in \<lparr>author = str_or L a placeholder,
          ai_system = str_or L s placeholder,
          tier = str_or L t placeholder,
          mode = str_or L m placeholder,
          origin_url = str_or L u ''''\<rparr>)"

section \<open>Asset selection\<close>

definition startswith :: "string \<Rightarrow> string \<Rightarrow> bool" where
  "startswith s p = (take (length p) s = p)"

definition endswith :: "string \<Rightarrow> string \<Rightarrow> bool" where
  "endswith s p = (length p \<le> length s \<and> drop (length s - length p) s = p)"

text \<open>\<^verbatim>\<open>h in s\<close> on strings.\<close>

fun contains :: "string \<Rightarrow> string \<Rightarrow> bool" where
  "contains [] h = (h = [])"
| "contains (x # xs) h = (startswith (x # xs) h \<or> contains xs h)"

text \<open>\<^verbatim>\<open>s.rfind(c)\<close>, with \<open>None\<close> for \<open>-1\<close>.\<close>

fun rfind :: "char \<Rightarrow> string \<Rightarrow> nat option" where
  "rfind c [] = None"
| "rfind c (x # xs) =
     (case rfind c xs of
        Some i \<Rightarrow> Some (Suc i)
      | None \<Rightarrow> if x = c then Some 0 else None)"

text \<open>
  \<^verbatim>\<open>Path(s).name\<close> and \<^verbatim>\<open>Path(s).suffix\<close> on a POSIX system (pathlib of Python 3.11): empty
  and \<^verbatim>\<open>"."\<close> components are dropped, the name is the last component left, and the suffix
  starts at the last dot of the name unless that dot is its first or last character.
\<close>

definition path_name :: "string \<Rightarrow> string" where
  "path_name s =
     (let parts = filter (\<lambda>p. p \<noteq> [] \<and> p \<noteq> ''.'') (split_on CHR ''/'' s)
      in if parts = [] then [] else last parts)"

definition path_suffix :: "string \<Rightarrow> string" where
  "path_suffix s =
     (let name = path_name s in
      case rfind CHR ''.'' name of
        None \<Rightarrow> []
      | Some i \<Rightarrow> if 0 < i \<and> Suc i < length name then drop i name else [])"

text \<open>\<^verbatim>\<open>xs.index(x)\<close>, with \<open>None\<close> for \<^verbatim>\<open>ValueError\<close>.\<close>

fun index_of :: "string \<Rightarrow> string list \<Rightarrow> nat option" where
  "index_of x [] = None"
| "index_of x (y # ys) =
     (if x = y then Some 0 else (case index_of x ys of Some i \<Rightarrow> Some (Suc i) | None \<Rightarrow> None))"

text \<open>The loop that fills \<^verbatim>\<open>candidates\<close>.\<close>

fun collect_candidates :: "string list \<Rightarrow> string list \<Rightarrow> string list \<Rightarrow> string list" where
  "collect_candidates prefixes exts_priority [] = []"
| "collect_candidates prefixes exts_priority (n # ns) =
     (let ln = lower n in
      if \<not> list_ex (\<lambda>p. startswith ln p) prefixes then
        collect_candidates prefixes exts_priority ns
      else
        let suf = path_suffix ln in
        if suf \<in> set exts_priority then n # collect_candidates prefixes exts_priority ns
        else collect_candidates prefixes exts_priority ns)"

definition has_hint :: "string list \<Rightarrow> string \<Rightarrow> bool" where
  "has_hint hint_substrings n = (let ln = lower n in list_ex (\<lambda>h. contains ln h) hint_substrings)"

definition ext_rank :: "string list \<Rightarrow> string \<Rightarrow> nat" where
  "ext_rank exts_priority n =
     (let ext = path_suffix (lower n) in
      case index_of ext exts_priority of Some i \<Rightarrow> i | None \<Rightarrow> 999)"

definition choose_member_by_ext ::
  "zip_file \<Rightarrow> string list \<Rightarrow> string list \<Rightarrow> string list \<Rightarrow> string option" where
  "choose_member_by_ext z prefixes exts_priority hint_substrings =
     (let names = filter (\<lambda>n. n \<noteq> [] \<and> \<not> endswith n ''/'') (namelist z);
          candidates = collect_candidates prefixes exts_priority names
      in if candidates = [] then None
         else
           let hinted = filter (\<lambda>n. hint_substrings \<noteq> [] \<and> has_hint hint_substrings n) candidates;
               pool = (if hinted \<noteq> [] then hinted else candidates);
               pool_sorted = sort_key (\<lambda>s. (ext_rank exts_priority s, lower s)) pool
           in (case pool_sorted of [] \<Rightarrow> None | p # ps \<Rightarrow> Some p))"

definition find_declaration_member_anyname :: "zip_file \<Rightarrow> string option" where
  "find_declaration_member_anyname z =
     choose_member_by_ext z [''metadata/''] [''.pdf'', ''.txt'']
       [''declar'', ''legal'', ''license'', ''statement'']"

definition find_prompt_member_anyname :: "zip_file \<Rightarrow> string option" where
  "find_prompt_member_anyname z =
     choose_member_by_ext z [''metadata/''] [''.txt'']
       [''prompt'', ''suno'', ''udio'', ''instruction'']"

definition find_lyrics_member_anyname :: "zip_file \<Rightarrow> string option" where
  "find_lyrics_member_anyname z =
     choose_member_by_ext z [''metadata/''] [''.txt'']
       [''lyric'', ''lyrics'', ''words'', ''verse'']"

section \<open>get\_track\_info\<close>

text \<open>
  What \<^verbatim>\<open>VERIFY_FN(aifm_path)\<close> hands back: a truth value and result objects whose
  attributes \<^verbatim>\<open>ok\<close>, \<^verbatim>\<open>path\<close> and \<^verbatim>\<open>reason\<close> may be absent (\<^verbatim>\<open>getattr\<close> then takes its
  default). \<open>Inl e\<close>: the call, or taking its result apart, raised \<open>e\<close>.
\<close>

record ext_result =
  r_ok :: "json option"
  r_path :: "json option"
  r_reason :: "json option"

type_synonym verify_fn = "string \<Rightarrow> py_exception + json \<times> ext_result list"

definition getattr :: "json option \<Rightarrow> json \<Rightarrow> json" where
  "getattr a dflt = (case a of None \<Rightarrow> dflt | Some v \<Rightarrow> v)"

definition ext_detail :: "pylib \<Rightarrow> ext_result \<Rightarrow> detail" where
  "ext_detail L r =
     \<lparr>d_ok = truthy (getattr (r_ok r) (JBool False)),
      d_path = py_str L (getattr (r_path r) (JStr '''')),
      d_reason = (if truthy (getattr (r_reason r) (JStr ''''))
                  then py_str L (getattr (r_reason r) (JStr '''')) else '''')\<rparr>"

definition builtin_detail :: "BuiltinCheck \<Rightarrow> detail" where
  "builtin_detail c = \<lparr>d_ok = c_ok c, d_path = c_path c, d_reason = c_reason c\<rparr>"

record verify_info =
  v_ok :: bool
  v_status :: string
  v_details :: "detail list"
  v_available :: bool
  v_engine :: string

text \<open>The last block of \<^verbatim>\<open>get_track_info\<close>, which sets \<^verbatim>\<open>info["verify"]\<close>.\<close>

definition track_verify ::
  "pylib \<Rightarrow> verify_fn option \<Rightarrow> (string \<Rightarrow> py_exception + zip_file) \<Rightarrow> string \<Rightarrow> verify_info" where
  "track_verify L VERIFY_FN ZipFile aifm_path =
     (case VERIFY_FN of
        Some f \<Rightarrow>
          (case f aifm_path of
             Inr (ok, results) \<Rightarrow>
               let details = map (ext_detail L) results;
                   n = normalize_verify details (truthy ok)
               in \<lparr>v_ok = fst n, v_status = fst (snd n), v_details = details,
                   v_available = True, v_engine = ''verify_aifm.py''\<rparr>
           | Inl e \<Rightarrow>
               \<lparr>v_ok = False, v_status = ''ERROR'',
                v_details = [\<lparr>d_ok = False, d_path = ''verify_aifm.py'', d_reason = exc_str e\<rparr>],
                v_available = True, v_engine = ''verify_aifm.py''\<rparr>)
      | None \<Rightarrow>
          let r = builtin_verify_aifm L ZipFile aifm_path;
              details = map builtin_detail (snd r);
              n = normalize_verify details (fst r)
          in \<lparr>v_ok = fst n, v_status = fst (snd n), v_details = details,
              v_available = True, v_engine = ''builtin''\<rparr>)"

text \<open>
  The entries \<^verbatim>\<open>"fields"\<close> and \<^verbatim>\<open>"verify"\<close> of the dict \<^verbatim>\<open>get_track_info\<close> returns. (The
  entry \<^verbatim>\<open>"assets"\<close> is filled between the two, inside its own \<^verbatim>\<open>try\<close> whose handler is
  \<^verbatim>\<open>pass\<close>, and touches neither.)
\<close>

record track_info =
  info_fields :: fields_info
  info_verify :: verify_info

definition get_track_info ::
  "pylib \<Rightarrow> verify_fn option \<Rightarrow> (string \<Rightarrow> py_exception + zip_file) \<Rightarrow>
   (string \<rightharpoonup> track_info) \<Rightarrow> string \<Rightarrow> track_info \<times> (string \<rightharpoonup> track_info)" where
  "get_track_info L VERIFY_FN ZipFile info_cache aifm_path =
     (case info_cache aifm_path of
        Some info \<Rightarrow> (info, info_cache)
      | None \<Rightarrow>
          let manifest = (case read_manifest_from_aifm L ZipFile aifm_path of
                            Inl e \<Rightarrow> JObj [] | Inr m \<Rightarrow> m);
              info = \<lparr>info_fields = track_fields L manifest,
                      info_verify = track_verify L VERIFY_FN ZipFile aifm_path\<rparr>
          in (info, info_cache(aifm_path \<mapsto> info)))"

section \<open>The specification's wording, for comparison\<close>

text \<open>
  Lookup of one dotted path as the specification describes it: the path traverses nested
  mapping keys, and a missing key or a non-mapping intermediate means ``not found''.
\<close>

fun spec_resolve :: "json \<Rightarrow> string list \<Rightarrow> json option" where
  "spec_resolve cur [] = Some cur"
| "spec_resolve (JObj kvs) (k # ks) =
     (case map_of kvs k of None \<Rightarrow> None | Some v \<Rightarrow> spec_resolve v ks)"
| "spec_resolve v (k # ks) = None"

definition spec_found :: "json \<Rightarrow> string \<Rightarrow> json option" where
  "spec_found manifest p = spec_resolve manifest (split_on CHR ''.'' p)"

text \<open>
  The candidate pool of the asset resolver as the specification describes it: the
  non-directory members under \<^verbatim>\<open>metadata/\<close> with an extension of the priority list,
  restricted to the members with a hint when there is one; and the sort key.
\<close>

definition spec_candidates :: "string list \<Rightarrow> string list \<Rightarrow> string list" where
  "spec_candidates exts names =
     filter (\<lambda>n. n \<noteq> [] \<and> \<not> endswith n ''/'' \<and> startswith (lower n) ''metadata/'' \<and>
                 path_suffix (lower n) \<in> set exts) names"

definition spec_hinted :: "string list \<Rightarrow> string \<Rightarrow> bool" where
  "spec_hinted hints n = (\<exists>h \<in> set hints. contains (lower n) h)"

definition spec_pool :: "string list \<Rightarrow> string list \<Rightarrow> string list \<Rightarrow> string list" where
  "spec_pool exts hints names =
     (if \<exists>n \<in> set (spec_candidates exts names). spec_hinted hints n
      then filter (spec_hinted hints) (spec_candidates exts names)
      else spec_candidates exts names)"

definition spec_key :: "string list \<Rightarrow> string \<Rightarrow> nat \<times> string" where
  "spec_key exts n = (ext_rank exts n, lower n)"

section \<open>Example archives\<close>

text \<open>
  Small archives on which the model is run. \<open>example_lib\<close> decodes the one-byte
  manifests \<open>[1]\<close> to \<open>[5]\<close> and rejects everything else; its digest of any data
  is \<^verbatim>\<open>ab\<close>.
\<close>

definition example_hashed :: "(string \<times> json) list" where
  "example_hashed =
     [(''payload/a.wav'', JObj [(''sha256'', JStr ''AB''), (''bytes'', JInt 2)]),
      (''metadata/cover.png'', JObj [(''sha256'', JStr ''cd''), (''bytes'', JInt 5)]),
      (''manifest.json'', JObj [(''sha256'', JStr ''ab'')])]"

definition example_integrity :: "(string \<times> json) list" where
  "example_integrity =
     [(''algorithm'', JStr ''SHA256''), (''hashed_files'', JObj example_hashed)]"

definition example_manifest :: json where
  "example_manifest =
     JObj [(''author'', JStr ''Ada''), (''integrity'', JObj example_integrity)]"

definition example_manifest_bool :: json where
  "example_manifest_bool =
     JObj [(''integrity'', JObj
              [(''hashed_files'', JObj
                  [(''payload/a.wav'', JObj [(''bytes'', JBool True)])])])]"

definition example_manifest_intact :: json where
  "example_manifest_intact =
     JObj [(''integrity'', JObj
              [(''hashed_files'', JObj
                  [(''payload/a.wav'', JObj [(''sha256'', JStr ''AB''), (''bytes'', JInt 2)])])])]"

definition example_manifest_md5 :: json where
  "example_manifest_md5 =
     JObj [(''integrity'', JObj
              [(''algorithm'', JStr ''md5''),
               (''hashed_files'', JObj [(''payload/a.wav'', JObj [(''bytes'', JInt 2)])])])]"

definition example_lib :: pylib where
  "example_lib =
     \<lparr>json_loads = (\<lambda>raw. if raw = [1] then Inr example_manifest
                          else if raw = [2] then Inr (JObj [(''author'', JStr ''Ada'')])
                          else if raw = [3] then Inr example_manifest_bool
                          else if raw = [4] then Inr example_manifest_intact
                          else if raw = [5] then Inr example_manifest_md5
                          else Inl (PyException ''Expecting value'')),
      sha256_hexdigest = (\<lambda>data. ''ab''),
      repr_other = (\<lambda>v. ''?'')\<rparr>"

definition example_names :: "string list" where
  "example_names = [''manifest.json'', ''payload/a.wav'', ''metadata/cover.png'']"

definition example_zip :: "8 word \<Rightarrow> bool \<Rightarrow> zip_file" where
  "example_zip manifest_byte readable =
     \<lparr>namelist = example_names,
      zread = (\<lambda>n. if n = ''manifest.json'' then Inr [manifest_byte]
                    else if n = ''payload/a.wav'' then
                      (if readable then Inr [0, 0] else Inl (PyException ''Bad CRC-32''))
                    else Inr [0, 0, 0])\<rparr>"

definition example_fs :: "string \<Rightarrow> py_exception + zip_file" where
  "example_fs p =
     (if p = ''good.aifm'' then Inr (example_zip 1 True)
      else if p = ''corrupt.aifm'' then Inr (example_zip 1 False)
      else if p = ''bare.aifm'' then Inr (example_zip 2 True)
      else if p = ''bool.aifm'' then Inr (example_zip 3 True)
      else if p = ''intact.aifm'' then Inr (example_zip 4 True)
      else if p = ''md5.aifm'' then Inr (example_zip 5 True)
      else if p = ''nomanifest.aifm'' then
        Inr \<lparr>namelist = [''payload/a.wav''], zread = (\<lambda>n. Inr [0, 0])\<rparr>
      else Inl (PyException ''File is not a zip file''))"

definition example_decl_zip :: zip_file where
  "example_decl_zip =
     \<lparr>namelist = [''metadata/decl.txt'', ''metadata/decl.pdf''], zread = (\<lambda>n. Inr [])\<rparr>"


section \<open>Properties of normalize\_verify\<close>

lemma normalize_no_fail:
  "\<forall>d \<in> set details. d_ok d \<Longrightarrow>
   normalize_verify details original_ok =
     (original_ok, (if original_ok then ''INTACT'' else ''TAMPERED''), False)"
  by (simp add: normalize_verify_def filter_empty_conv)

lemma normalize_non_manifest_fail:
  "\<exists>d \<in> set details. \<not> d_ok d \<and> d_path d \<noteq> ''manifest.json'' \<Longrightarrow>
   normalize_verify details original_ok = (False, ''TAMPERED'', False)"
  by (auto simp add: normalize_verify_def Let_def filter_empty_conv)

lemma normalize_manifest_only:
  "\<exists>d \<in> set details. \<not> d_ok d \<Longrightarrow>
   \<forall>d \<in> set details. \<not> d_ok d \<longrightarrow> d_path d = ''manifest.json'' \<Longrightarrow>
   normalize_verify details original_ok = (True, ''INTACT (MANIFEST WARN)'', True)"
  by (auto simp add: normalize_verify_def Let_def filter_empty_conv)

section \<open>Properties of the loop over the declared entries\<close>

lemma check_entry_Inl:
  "check_entry L z st item = Inl e \<longleftrightarrow> entry_check L z item = Inl e"
  by (auto simp add: check_entry_def entry_check_def Let_def split: sum.splits if_splits)

lemma check_entry_Inr:
  "check_entry L z st item = Inr st' \<Longrightarrow>
   \<exists>c. entry_check L z item = Inr c \<and> checks st' = checks st @ [c] \<and> c_path c = fst item \<and>
       non_manifest_failed st' =
         (non_manifest_failed st \<or> (\<not> c_ok c \<and> c_path c \<noteq> ''manifest.json'')) \<and>
       manifest_failed st' = (manifest_failed st \<or> (\<not> c_ok c \<and> c_path c = ''manifest.json''))"
  by (auto simp add: check_entry_def entry_check_def record_fail_def mk_check_def init_state_def
        Let_def split: sum.splits if_splits)

lemma entry_check_Inl_iff:
  "entry_check L z item = Inl e \<longleftrightarrow> fst item \<in> set (namelist z) \<and> zread z (fst item) = Inl e"
  by (auto simp add: check_entry_def entry_check_def Let_def split: sum.splits if_splits)

lemma check_loop_checks:
  "check_loop L z st items = Inr st' \<Longrightarrow>
   map Inr (checks st') = map Inr (checks st) @ map (entry_check L z) items \<and>
   map c_path (checks st') = map c_path (checks st) @ map fst items"
proof (induction items arbitrary: st)
  case Nil
  then show ?case by simp
next
  case (Cons item items)
  from Cons.prems obtain st1 where
    s1: "check_entry L z st item = Inr st1" and s2: "check_loop L z st1 items = Inr st'"
    by (auto split: sum.splits)
  from check_entry_Inr [OF s1] obtain c where
    c: "entry_check L z item = Inr c" "checks st1 = checks st @ [c]" "c_path c = fst item"
    by blast
  from Cons.IH [OF s2] c show ?case by simp
qed

lemma check_loop_flags:
  "check_loop L z st items = Inr st' \<Longrightarrow>
   non_manifest_failed st =
     (\<exists>c \<in> set (checks st). \<not> c_ok c \<and> c_path c \<noteq> ''manifest.json'') \<Longrightarrow>
   non_manifest_failed st' =
     (\<exists>c \<in> set (checks st'). \<not> c_ok c \<and> c_path c \<noteq> ''manifest.json'')"
proof (induction items arbitrary: st)
  case Nil
  then show ?case by simp
next
  case (Cons item items)
  from Cons.prems(1) obtain st1 where
    s1: "check_entry L z st item = Inr st1" and s2: "check_loop L z st1 items = Inr st'"
    by (auto split: sum.splits)
  from check_entry_Inr [OF s1] obtain c where
    c: "checks st1 = checks st @ [c]"
       "non_manifest_failed st1 =
          (non_manifest_failed st \<or> (\<not> c_ok c \<and> c_path c \<noteq> ''manifest.json''))"
    by blast
  have "non_manifest_failed st1 =
          (\<exists>c \<in> set (checks st1). \<not> c_ok c \<and> c_path c \<noteq> ''manifest.json'')"
    using c Cons.prems(2) by auto
  from Cons.IH [OF s2 this] show ?case .
qed

lemma check_loop_total:
  "\<forall>item \<in> set items. fst item \<in> set (namelist z) \<longrightarrow> (\<exists>data. zread z (fst item) = Inr data) \<Longrightarrow>
   \<exists>st'. check_loop L z st items = Inr st'"
proof (induction items arbitrary: st)
  case Nil
  then show ?case by simp
next
  case (Cons item items)
  have "\<not> (\<exists>e. check_entry L z st item = Inl e)"
    using Cons.prems by (auto simp add: check_entry_Inl entry_check_Inl_iff)
  then obtain st1 where "check_entry L z st item = Inr st1"
    by (cases "check_entry L z st item") auto
  moreover from Cons obtain st' where "check_loop L z st1 items = Inr st'"
    by fastforce
  ultimately show ?case by simp
qed

lemma check_loop_raise:
  "\<forall>i \<in> set pre. fst i \<in> set (namelist z) \<longrightarrow> (\<exists>data. zread z (fst i) = Inr data) \<Longrightarrow>
   fst item \<in> set (namelist z) \<Longrightarrow> zread z (fst item) = Inl e \<Longrightarrow>
   check_loop L z st (pre @ item # post) = Inl e"
proof (induction pre arbitrary: st)
  case Nil
  then have "check_entry L z st item = Inl e"
    by (simp add: check_entry_Inl entry_check_Inl_iff)
  then show ?case by simp
next
  case (Cons i pre)
  have "\<not> (\<exists>e. check_entry L z st i = Inl e)"
    using Cons.prems by (auto simp add: check_entry_Inl entry_check_Inl_iff)
  then obtain st1 where "check_entry L z st i = Inr st1"
    by (cases "check_entry L z st i") auto
  moreover from Cons have "check_loop L z st1 (pre @ item # post) = Inl e"
    by simp
  ultimately show ?case by simp
qed

lemma verify_opened_loop:
  assumes "''manifest.json'' \<in> set (namelist z)"
    and "zread z ''manifest.json'' = Inr raw"
    and "json_loads L raw = Inr manifest"
    and "manifest_integrity manifest = JObj integrity"
    and "lower (py_str L (dict_get integrity ''algorithm'' (JStr ''sha256''))) = ''sha256''"
    and "map_of integrity ''hashed_files'' = Some (JObj items)"
    and "items \<noteq> []"
  shows "verify_opened L z =
           (case check_loop L z init_state items of
              Inl e \<Rightarrow> Inl e
            | Inr st \<Rightarrow> Inr (\<not> non_manifest_failed st, checks st))"
  using assms by (simp add: verify_opened_def Let_def dict_get_def split: sum.splits)

lemma verify_opened_verdict:
  assumes "verify_opened L z = Inr (b, cs)" and "\<forall>c \<in> set cs. c_ok c"
  shows "b"
proof -
  have loop: "check_loop L z init_state items = Inr st \<Longrightarrow>
     non_manifest_failed st = (\<exists>c \<in> set (checks st). \<not> c_ok c \<and> c_path c \<noteq> ''manifest.json'')"
    for items st
    using check_loop_flags [of L z init_state items st] by (simp add: init_state_def)
  show ?thesis
    using assms loop
    by (auto simp add: verify_opened_def Let_def mk_check_def split: if_splits sum.splits)
qed

lemma builtin_verdict:
  assumes "\<forall>c \<in> set (snd (builtin_verify_aifm L ZipFile p)). c_ok c"
  shows "fst (builtin_verify_aifm L ZipFile p)"
proof (cases "case ZipFile p of Inl e \<Rightarrow> Inl e | Inr z \<Rightarrow> verify_opened L z")
  case (Inl e)
  with assms show ?thesis by (simp add: builtin_verify_aifm_def mk_check_def)
next
  case (Inr r)
  obtain b cs where r: "r = (b, cs)" by (cases r)
  from Inr r obtain z where "verify_opened L z = Inr (b, cs)"
    by (auto split: sum.splits)
  from verify_opened_verdict [OF this] assms Inr r show ?thesis
    by (simp add: builtin_verify_aifm_def)
qed

lemma builtin_checks_map:
  assumes "ZipFile p = Inr z"
    and "''manifest.json'' \<in> set (namelist z)"
    and "zread z ''manifest.json'' = Inr raw"
    and "json_loads L raw = Inr manifest"
    and "manifest_integrity manifest = JObj integrity"
    and "lower (py_str L (dict_get integrity ''algorithm'' (JStr ''sha256''))) = ''sha256''"
    and "map_of integrity ''hashed_files'' = Some (JObj items)"
    and "items \<noteq> []"
    and "\<forall>item \<in> set items. fst item \<in> set (namelist z) \<longrightarrow>
           (\<exists>data. zread z (fst item) = Inr data)"
  shows "map Inr (snd (builtin_verify_aifm L ZipFile p)) = map (entry_check L z) items"
proof -
  from check_loop_total [OF assms(9)] obtain st where
    st: "check_loop L z init_state items = Inr st" by blast
  have "snd (builtin_verify_aifm L ZipFile p) = checks st"
    by (simp add: builtin_verify_aifm_def assms(1) verify_opened_loop [OF assms(2-8)] st)
  with check_loop_checks [OF st] show ?thesis
    by (simp add: init_state_def)
qed

lemma entry_check_size_mismatch:
  assumes "relpath \<in> set (namelist z)"
    and "zread z relpath = Inr data"
    and "map_of kv ''bytes'' = Some (JInt n)"
    and "int (length data) \<noteq> n"
  shows "entry_check L z (relpath, JObj kv) =
           Inr (mk_check False relpath
                  (''bytes mismatch: '' @ str_int (int (length data)) @ '' != '' @ str_int n))"
  using assms
  by (simp add: entry_check_def check_entry_def Let_def dict_get_def record_fail_def
      init_state_def mk_check_def)

text \<open>An entry that declares neither a usable digest nor a size of type \<^verbatim>\<open>int\<close> passes
  as soon as its member can be read.\<close>

lemma entry_check_nothing_declared:
  assumes "relpath \<in> set (namelist z)"
    and "zread z relpath = Inr data"
    and "\<not> isinstance_dict meta \<or>
         (\<not> isinstance_int (dict_get (dict_items meta) ''bytes'' JNull) \<and>
          (map_of (dict_items meta) ''sha256'' = None \<or>
           map_of (dict_items meta) ''sha256'' = Some (JStr '''')))"
  shows "entry_check L z (relpath, meta) = Inr (mk_check True relpath '''')"
  using assms
  by (auto simp add: entry_check_def check_entry_def Let_def dict_get_def init_state_def
      mk_check_def lower_def)

section \<open>Properties of get\_track\_info\<close>

lemma get_track_info_verify:
  "info_cache p = None \<Longrightarrow>
   info_verify (fst (get_track_info L V ZipFile info_cache p)) = track_verify L V ZipFile p"
  by (simp add: get_track_info_def Let_def)

lemma track_verify_builtin_raise:
  "(case ZipFile p of Inl e \<Rightarrow> Inl e | Inr z \<Rightarrow> verify_opened L z) = Inl e \<Longrightarrow>
   track_verify L None ZipFile p =
     \<lparr>v_ok = False, v_status = ''TAMPERED'',
      v_details = [\<lparr>d_ok = False, d_path = ''builtin_verify'', d_reason = exc_str e\<rparr>],
      v_available = True, v_engine = ''builtin''\<rparr>"
  by (simp add: track_verify_def builtin_verify_aifm_def Let_def mk_check_def builtin_detail_def
      normalize_verify_def)

lemma track_verify_builtin_single_fail:
  "builtin_verify_aifm L ZipFile p = (b, [mk_check False q r]) \<Longrightarrow> q \<noteq> ''manifest.json'' \<Longrightarrow>
   track_verify L None ZipFile p =
     \<lparr>v_ok = False, v_status = ''TAMPERED'',
      v_details = [\<lparr>d_ok = False, d_path = q, d_reason = r\<rparr>],
      v_available = True, v_engine = ''builtin''\<rparr>"
  by (simp add: track_verify_def Let_def mk_check_def builtin_detail_def normalize_verify_def)

lemma spec_path_hashed_files:
  "split_on CHR ''.'' ''integrity.hashed_files'' = [''integrity'', ''hashed_files'']"
  by simp

lemma hashed_files_unusable:
  assumes "spec_found manifest ''integrity.hashed_files'' = None \<or>
           spec_found manifest ''integrity.hashed_files'' = Some (JObj [])"
    and "manifest_integrity manifest = JObj integrity"
  shows "\<not> isinstance_dict (dict_get integrity ''hashed_files'' (JObj [])) \<or>
         \<not> truthy (dict_get integrity ''hashed_files'' (JObj []))"
proof (cases manifest)
  case (JObj kv)
  show ?thesis
  proof (cases "map_of kv ''integrity''")
    case None
    with JObj assms(2) show ?thesis
      by (simp add: manifest_integrity_def dict_get_def)
  next
    case (Some v)
    with JObj assms(2) have v: "v = JObj integrity"
      by (simp add: manifest_integrity_def dict_get_def)
    with JObj Some assms(1) show ?thesis
      by (auto simp add: spec_found_def spec_path_hashed_files dict_get_def
            split: option.splits)
  qed
qed (use assms(2) in \<open>auto simp add: manifest_integrity_def dict_get_def\<close>)

lemma verify_opened_hashed_missing:
  assumes "''manifest.json'' \<in> set (namelist z)"
    and "zread z ''manifest.json'' = Inr raw"
    and "json_loads L raw = Inr manifest"
    and "spec_found manifest ''integrity.hashed_files'' = None \<or>
         spec_found manifest ''integrity.hashed_files'' = Some (JObj [])"
  shows "(\<not> isinstance_dict (manifest_integrity manifest) \<longrightarrow>
            verify_opened L z = Inl (no_attribute_get (manifest_integrity manifest))) \<and>
         (isinstance_dict (manifest_integrity manifest) \<longrightarrow>
            verify_opened L z =
              (if lower (py_str L (dict_get (dict_items (manifest_integrity manifest))
                                     ''algorithm'' (JStr ''sha256''))) \<noteq> ''sha256''
               then Inr (False, [mk_check False ''integrity.algorithm''
                      (''unsupported algorithm: '' @
                       py_str L (dict_get (dict_items (manifest_integrity manifest))
                                   ''algorithm'' (JStr ''sha256'')))])
               else Inr (False, [mk_check False ''integrity.hashed_files''
                                   ''missing/empty hashed_files''])))"
proof (cases "manifest_integrity manifest")
  case (JObj integrity)
  from hashed_files_unusable [OF assms(4) JObj] assms(1-3) JObj show ?thesis
    by (auto simp add: verify_opened_def Let_def)
qed (use assms(1-3) in \<open>simp_all add: verify_opened_def Let_def\<close>)

section \<open>Facts about the example archives\<close>

lemma example_good_open: "example_fs ''good.aifm'' = Inr (example_zip 1 True)"
  by (simp add: example_fs_def)

lemma example_manifest_member: "''manifest.json'' \<in> set (namelist (example_zip b r))"
  by (simp add: example_zip_def example_names_def)

lemma example_manifest_read: "zread (example_zip b r) ''manifest.json'' = Inr [b]"
  by (simp add: example_zip_def)

lemma example_loads_1: "json_loads example_lib [1] = Inr example_manifest"
  by (simp add: example_lib_def)

lemma example_integrity_eq: "manifest_integrity example_manifest = JObj example_integrity"
  by (simp add: manifest_integrity_def example_manifest_def dict_get_def)

lemma example_algorithm_ok:
  "lower (py_str example_lib (dict_get example_integrity ''algorithm'' (JStr ''sha256''))) =
     ''sha256''"
  by code_simp

lemma example_hashed_files: "map_of example_integrity ''hashed_files'' = Some (JObj example_hashed)"
  by (simp add: example_integrity_def)

lemma example_hashed_nonempty: "example_hashed \<noteq> []"
  by (simp add: example_hashed_def)

lemma example_str_int_3: "str_int 3 = ''3''"
  by code_simp

lemma example_str_int_5: "str_int 5 = ''5''"
  by code_simp

lemma example_loads_2: "json_loads example_lib [2] = Inr (JObj [(''author'', JStr ''Ada'')])"
  by (simp add: example_lib_def)




lemma example_default_algorithm:
  "lower (py_str example_lib (dict_get [] ''algorithm'' (JStr ''sha256''))) = ''sha256''"
  by code_simp

lemma example_bare_integrity:
  "manifest_integrity (JObj [(''author'', JStr ''Ada'')]) = JObj []"
  by (simp add: manifest_integrity_def dict_get_def)

lemma example_bare_not_found:
  "spec_found (JObj [(''author'', JStr ''Ada'')]) ''integrity.hashed_files'' = None"
  by (simp add: spec_found_def)

lemma example_good_readable:
  "\<forall>item \<in> set example_hashed. fst item \<in> set (namelist (example_zip 1 True)) \<longrightarrow>
     (\<exists>data. zread (example_zip 1 True) (fst item) = Inr data)"
  by (simp add: example_zip_def)

section \<open>The claims\<close>

text \<open>
  C1 (as amended). For every list of details and every verdict \<open>original_ok\<close> of the
  verifier that produced it: if no check fails, normalization returns \<open>original_ok\<close>
  unchanged, with status INTACT when it is true and TAMPERED when it is false; if a failing
  check has a path other than \<^verbatim>\<open>manifest.json\<close>, it returns false and TAMPERED; if some check
  fails and every failing check has the path \<^verbatim>\<open>manifest.json\<close>, it returns true and
  INTACT (MANIFEST WARN). The built-in verifier's verdict is true whenever none of its
  checks fails, so its outcome is then true and INTACT.
\<close>

theorem normalize_verify_tri_state:
  "((\<forall>d \<in> set details. d_ok d) \<longrightarrow>
      normalize_verify details original_ok =
        (original_ok, (if original_ok then ''INTACT'' else ''TAMPERED''), False)) \<and>
   ((\<exists>d \<in> set details. \<not> d_ok d \<and> d_path d \<noteq> ''manifest.json'') \<longrightarrow>
      normalize_verify details original_ok = (False, ''TAMPERED'', False)) \<and>
   ((\<exists>d \<in> set details. \<not> d_ok d) \<and>
    (\<forall>d \<in> set details. \<not> d_ok d \<longrightarrow> d_path d = ''manifest.json'') \<longrightarrow>
      normalize_verify details original_ok = (True, ''INTACT (MANIFEST WARN)'', True)) \<and>
   ((\<forall>c \<in> set (snd (builtin_verify_aifm L ZipFile p)). c_ok c) \<longrightarrow>
      normalize_verify (map builtin_detail (snd (builtin_verify_aifm L ZipFile p)))
        (fst (builtin_verify_aifm L ZipFile p)) = (True, ''INTACT'', False))"
proof (intro conjI impI)
  assume "\<forall>d \<in> set details. d_ok d"
  then show "normalize_verify details original_ok =
        (original_ok, (if original_ok then ''INTACT'' else ''TAMPERED''), False)"
    by (rule normalize_no_fail)
next
  assume "\<exists>d \<in> set details. \<not> d_ok d \<and> d_path d \<noteq> ''manifest.json''"
  then show "normalize_verify details original_ok = (False, ''TAMPERED'', False)"
    by (rule normalize_non_manifest_fail)
next
  assume "(\<exists>d \<in> set details. \<not> d_ok d) \<and>
    (\<forall>d \<in> set details. \<not> d_ok d \<longrightarrow> d_path d = ''manifest.json'')"
  then show "normalize_verify details original_ok = (True, ''INTACT (MANIFEST WARN)'', True)"
    using normalize_manifest_only by blast
next
  assume a: "\<forall>c \<in> set (snd (builtin_verify_aifm L ZipFile p)). c_ok c"
  then have "fst (builtin_verify_aifm L ZipFile p)"
    by (rule builtin_verdict)
  moreover have "\<forall>d \<in> set (map builtin_detail (snd (builtin_verify_aifm L ZipFile p))). d_ok d"
    using a by (simp add: builtin_detail_def)
  ultimately show "normalize_verify (map builtin_detail (snd (builtin_verify_aifm L ZipFile p)))
        (fst (builtin_verify_aifm L ZipFile p)) = (True, ''INTACT'', False)"
    by (simp add: normalize_no_fail)
qed

text \<open>The four cases of C1 on concrete lists, and on the intact example archive.\<close>

theorem normalize_verify_tri_state_witness:
  "normalize_verify [\<lparr>d_ok = True, d_path = ''payload/a.wav'', d_reason = ''''\<rparr>] True =
     (True, ''INTACT'', False) \<and>
   normalize_verify [\<lparr>d_ok = False, d_path = ''manifest.json'', d_reason = ''sha256 mismatch''\<rparr>,
                     \<lparr>d_ok = False, d_path = ''payload/a.wav'', d_reason = ''missing file''\<rparr>] True =
     (False, ''TAMPERED'', False) \<and>
   normalize_verify [\<lparr>d_ok = False, d_path = ''manifest.json'', d_reason = ''sha256 mismatch''\<rparr>,
                     \<lparr>d_ok = True, d_path = ''payload/a.wav'', d_reason = ''''\<rparr>] False =
     (True, ''INTACT (MANIFEST WARN)'', True) \<and>
   normalize_verify (map builtin_detail (snd (builtin_verify_aifm example_lib example_fs ''intact.aifm'')))
     (fst (builtin_verify_aifm example_lib example_fs ''intact.aifm'')) = (True, ''INTACT'', False)"
proof -
  have ok: "\<forall>c \<in> set (snd (builtin_verify_aifm example_lib example_fs ''intact.aifm'')). c_ok c"
    by code_simp
  show ?thesis
    using ok
      normalize_verify_tri_state
        [of "[\<lparr>d_ok = True, d_path = ''payload/a.wav'', d_reason = ''''\<rparr>]" True
            example_lib example_fs "''intact.aifm''"]
      normalize_verify_tri_state
        [of "[\<lparr>d_ok = False, d_path = ''manifest.json'', d_reason = ''sha256 mismatch''\<rparr>,
              \<lparr>d_ok = False, d_path = ''payload/a.wav'', d_reason = ''missing file''\<rparr>]" True
            example_lib example_fs "''intact.aifm''"]
      normalize_verify_tri_state
        [of "[\<lparr>d_ok = False, d_path = ''manifest.json'', d_reason = ''sha256 mismatch''\<rparr>,
              \<lparr>d_ok = True, d_path = ''payload/a.wav'', d_reason = ''''\<rparr>]" False
            example_lib example_fs "''intact.aifm''"]
    by simp
qed

text \<open>
  C1 as stated fails: an external verifier may report a false verdict together with a list
  in which no check fails; normalization then keeps the verdict and labels it TAMPERED.
\<close>

theorem normalize_verify_no_fail_counterexample:
  "d_ok \<lparr>d_ok = True, d_path = ''payload/a.wav'', d_reason = ''''\<rparr> \<and>
   normalize_verify [\<lparr>d_ok = True, d_path = ''payload/a.wav'', d_reason = ''''\<rparr>] False =
     (False, ''TAMPERED'', False)"
  by (simp add: normalize_verify_def)

text \<open>
  C2 (as amended). When the manifest member is present and parses, the algorithm is
  sha256 and \<^verbatim>\<open>hashed_files\<close> is a non-empty mapping, and every declared member that is in
  the archive can be read, the built-in verifier returns exactly one check per declared
  entry, in the stored order, each the check of its own entry whatever the other entries
  give. If reading a declared member raises, the checks made so far are dropped and the
  result is the single failing check \<^verbatim>\<open>builtin_verify\<close> with the exception's message.
\<close>

theorem builtin_checks_every_entry:
  assumes "ZipFile p = Inr z"
    and "''manifest.json'' \<in> set (namelist z)"
    and "zread z ''manifest.json'' = Inr raw"
    and "json_loads L raw = Inr manifest"
    and "manifest_integrity manifest = JObj integrity"
    and "lower (py_str L (dict_get integrity ''algorithm'' (JStr ''sha256''))) = ''sha256''"
    and "map_of integrity ''hashed_files'' = Some (JObj items)"
    and "items \<noteq> []"
  shows "((\<forall>item \<in> set items. fst item \<in> set (namelist z) \<longrightarrow>
             (\<exists>data. zread z (fst item) = Inr data)) \<longrightarrow>
          map Inr (snd (builtin_verify_aifm L ZipFile p)) = map (entry_check L z) items \<and>
          map c_path (snd (builtin_verify_aifm L ZipFile p)) = map fst items \<and>
          length (snd (builtin_verify_aifm L ZipFile p)) = length items) \<and>
         (\<forall>pre item post e.
            items = pre @ item # post \<and>
            (\<forall>i \<in> set pre. fst i \<in> set (namelist z) \<longrightarrow> (\<exists>data. zread z (fst i) = Inr data)) \<and>
            fst item \<in> set (namelist z) \<and> zread z (fst item) = Inl e \<longrightarrow>
            builtin_verify_aifm L ZipFile p =
              (False, [mk_check False ''builtin_verify'' (exc_str e)]))"
proof (intro conjI impI allI)
  note vo = verify_opened_loop [OF assms(2-8)]
  {
    assume rd: "\<forall>item \<in> set items. fst item \<in> set (namelist z) \<longrightarrow>
                  (\<exists>data. zread z (fst item) = Inr data)"
    from check_loop_total [OF rd] obtain st where
      st: "check_loop L z init_state items = Inr st" by blast
    have r: "snd (builtin_verify_aifm L ZipFile p) = checks st"
      by (simp add: builtin_verify_aifm_def assms(1) vo st)
    from check_loop_checks [OF st]
    show "map Inr (snd (builtin_verify_aifm L ZipFile p)) = map (entry_check L z) items"
      by (simp add: r init_state_def)
    from check_loop_checks [OF st]
    show p: "map c_path (snd (builtin_verify_aifm L ZipFile p)) = map fst items"
      by (simp add: r init_state_def)
    from p have "length (map c_path (snd (builtin_verify_aifm L ZipFile p))) = length (map fst items)"
      by (rule arg_cong)
    then show "length (snd (builtin_verify_aifm L ZipFile p)) = length items"
      by simp
  }
  fix pre item post e
  assume h: "items = pre @ item # post \<and>
            (\<forall>i \<in> set pre. fst i \<in> set (namelist z) \<longrightarrow> (\<exists>data. zread z (fst i) = Inr data)) \<and>
            fst item \<in> set (namelist z) \<and> zread z (fst item) = Inl e"
  then have "check_loop L z init_state items = Inl e"
    using check_loop_raise [of pre z item e L init_state post] by simp
  then show "builtin_verify_aifm L ZipFile p =
              (False, [mk_check False ''builtin_verify'' (exc_str e)])"
    by (simp add: builtin_verify_aifm_def assms(1) vo)
qed

text \<open>C2 on the example archive \<^verbatim>\<open>good.aifm\<close>: three declared entries, three checks, the
  second of them failing.\<close>

theorem builtin_checks_every_entry_witness:
  "map c_path (snd (builtin_verify_aifm example_lib example_fs ''good.aifm'')) =
     [''payload/a.wav'', ''metadata/cover.png'', ''manifest.json''] \<and>
   length (snd (builtin_verify_aifm example_lib example_fs ''good.aifm'')) = 3"
  using
    builtin_checks_every_entry
      [where ZipFile = example_fs and p = "''good.aifm''",
       OF example_good_open example_manifest_member example_manifest_read example_loads_1
          example_integrity_eq example_algorithm_ok example_hashed_files example_hashed_nonempty]
    example_good_readable
  by (simp add: example_hashed_def)

text \<open>
  C2 as stated fails: in \<^verbatim>\<open>corrupt.aifm\<close> the preconditions hold and three entries are
  declared, but reading the first declared member raises, and the verifier returns one
  check, not three.
\<close>

theorem builtin_unreadable_member_counterexample:
  "''manifest.json'' \<in> set (namelist (example_zip 1 False)) \<and>
   length (dict_items (safe_get example_manifest ''integrity.hashed_files'' JNull)) = 3 \<and>
   snd (builtin_verify_aifm example_lib example_fs ''corrupt.aifm'') =
     [mk_check False ''builtin_verify'' ''Bad CRC-32'']"
  by code_simp



text \<open>
  C4. Without an external verifier, for an archive whose manifest member is present and
  parses, and in which \<^verbatim>\<open>integrity.hashed_files\<close> is not found or is the empty mapping, the
  outcome that \<^verbatim>\<open>get_track_info\<close> computes has ok false and status TAMPERED; when the
  \<^verbatim>\<open>integrity\<close> block is a mapping with an acceptable algorithm, the only detail is the
  failing check keyed \<^verbatim>\<open>integrity.hashed_files\<close>.
\<close>

theorem missing_hashed_files_tampered:
  assumes "info_cache p = None"
    and "ZipFile p = Inr z"
    and "''manifest.json'' \<in> set (namelist z)"
    and "zread z ''manifest.json'' = Inr raw"
    and "json_loads L raw = Inr manifest"
    and "spec_found manifest ''integrity.hashed_files'' = None \<or>
         spec_found manifest ''integrity.hashed_files'' = Some (JObj [])"
  shows "v_ok (info_verify (fst (get_track_info L None ZipFile info_cache p))) = False \<and>
         v_status (info_verify (fst (get_track_info L None ZipFile info_cache p))) = ''TAMPERED'' \<and>
         (isinstance_dict (manifest_integrity manifest) \<and>
          lower (py_str L (dict_get (dict_items (manifest_integrity manifest))
                             ''algorithm'' (JStr ''sha256''))) = ''sha256'' \<longrightarrow>
          v_details (info_verify (fst (get_track_info L None ZipFile info_cache p))) =
            [\<lparr>d_ok = False, d_path = ''integrity.hashed_files'',
              d_reason = ''missing/empty hashed_files''\<rparr>])"
proof -
  note vo = verify_opened_hashed_missing [OF assms(3-6)]
  have tv: "info_verify (fst (get_track_info L None ZipFile info_cache p)) =
              track_verify L None ZipFile p"
    by (simp add: get_track_info_verify assms(1))
  show ?thesis
  proof (cases "isinstance_dict (manifest_integrity manifest)")
    case False
    with vo have "(case ZipFile p of Inl e \<Rightarrow> Inl e | Inr z \<Rightarrow> verify_opened L z) =
                    Inl (no_attribute_get (manifest_integrity manifest))"
      by (simp add: assms(2))
    from track_verify_builtin_raise [where ZipFile = ZipFile and p = p, OF this] False
    show ?thesis
      by (simp add: tv)
  next
    case True
    show ?thesis
    proof (cases "lower (py_str L (dict_get (dict_items (manifest_integrity manifest))
                             ''algorithm'' (JStr ''sha256''))) = ''sha256''")
      case algo_ok: True
      with vo True have
        "builtin_verify_aifm L ZipFile p =
           (False, [mk_check False ''integrity.hashed_files'' ''missing/empty hashed_files''])"
        by (simp add: builtin_verify_aifm_def assms(2))
      from track_verify_builtin_single_fail [where ZipFile = ZipFile and p = p, OF this]
      show ?thesis by (simp add: tv)
    next
      case algo_bad: False
      with vo True have
        "builtin_verify_aifm L ZipFile p =
           (False, [mk_check False ''integrity.algorithm''
                      (''unsupported algorithm: '' @
                       py_str L (dict_get (dict_items (manifest_integrity manifest))
                                   ''algorithm'' (JStr ''sha256'')))])"
        by (simp add: builtin_verify_aifm_def assms(2))
      from track_verify_builtin_single_fail [where ZipFile = ZipFile and p = p, OF this] algo_bad
      show ?thesis by (simp add: tv)
    qed
  qed
qed

text \<open>C4 on \<^verbatim>\<open>bare.aifm\<close>, whose manifest has no \<^verbatim>\<open>integrity\<close> block.\<close>

theorem missing_hashed_files_tampered_witness:
  "v_ok (info_verify (fst (get_track_info example_lib None example_fs Map.empty ''bare.aifm''))) =
     False \<and>
   v_status (info_verify (fst (get_track_info example_lib None example_fs Map.empty ''bare.aifm''))) =
     ''TAMPERED'' \<and>
   v_details (info_verify (fst (get_track_info example_lib None example_fs Map.empty ''bare.aifm''))) =
     [\<lparr>d_ok = False, d_path = ''integrity.hashed_files'',
       d_reason = ''missing/empty hashed_files''\<rparr>]"
proof -
  have c: "(Map.empty :: string \<rightharpoonup> track_info) ''bare.aifm'' = None"
    by simp
  have o: "example_fs ''bare.aifm'' = Inr (example_zip 2 True)"
    by (simp add: example_fs_def)
  have nf: "spec_found (JObj [(''author'', JStr ''Ada'')]) ''integrity.hashed_files'' = None \<or>
            spec_found (JObj [(''author'', JStr ''Ada'')]) ''integrity.hashed_files'' =
              Some (JObj [])"
    by (simp add: example_bare_not_found)
  from missing_hashed_files_tampered
         [where info_cache = Map.empty and ZipFile = example_fs and p = "''bare.aifm''",
          OF c o example_manifest_member example_manifest_read example_loads_2 nf]
  show ?thesis
    by (simp add: example_bare_integrity example_default_algorithm)
qed

text \<open>
  C5. For a declared entry whose member is in the archive and can be read, if the
  declared size is an integer different from the number of bytes read, the entry's check
  fails with the reason \<^verbatim>\<open>bytes mismatch: <actual> != <expected>\<close>, whatever the digest
  function returns and whatever digest is declared; and in a run of the verifier in which
  every declared member can be read, that is the check at the entry's position.
\<close>

theorem size_mismatch_before_digest:
  assumes "relpath \<in> set (namelist z)"
    and "zread z relpath = Inr data"
    and "map_of kv ''bytes'' = Some (JInt n)"
    and "int (length data) \<noteq> n"
  shows
    "(\<forall>h. entry_check (L\<lparr>sha256_hexdigest := h\<rparr>) z (relpath, JObj kv) =
            Inr (mk_check False relpath
                   (''bytes mismatch: '' @ str_int (int (length data)) @ '' != '' @ str_int n))) \<and>
     (\<forall>ZipFile p raw manifest integrity items i.
        ZipFile p = Inr z \<and> ''manifest.json'' \<in> set (namelist z) \<and>
        zread z ''manifest.json'' = Inr raw \<and> json_loads L raw = Inr manifest \<and>
        manifest_integrity manifest = JObj integrity \<and>
        lower (py_str L (dict_get integrity ''algorithm'' (JStr ''sha256''))) = ''sha256'' \<and>
        map_of integrity ''hashed_files'' = Some (JObj items) \<and>
        (\<forall>item \<in> set items. fst item \<in> set (namelist z) \<longrightarrow>
           (\<exists>d. zread z (fst item) = Inr d)) \<and>
        i < length items \<and> items ! i = (relpath, JObj kv) \<longrightarrow>
        snd (builtin_verify_aifm L ZipFile p) ! i =
          mk_check False relpath
            (''bytes mismatch: '' @ str_int (int (length data)) @ '' != '' @ str_int n))"
proof (intro conjI allI impI)
  fix h
  show "entry_check (L\<lparr>sha256_hexdigest := h\<rparr>) z (relpath, JObj kv) =
            Inr (mk_check False relpath
                   (''bytes mismatch: '' @ str_int (int (length data)) @ '' != '' @ str_int n))"
    by (rule entry_check_size_mismatch [OF assms])
next
  fix ZipFile :: "string \<Rightarrow> py_exception + zip_file"
    and p raw manifest integrity items and i :: nat
  assume h: "ZipFile p = Inr z \<and> ''manifest.json'' \<in> set (namelist z) \<and>
        zread z ''manifest.json'' = Inr raw \<and> json_loads L raw = Inr manifest \<and>
        manifest_integrity manifest = JObj integrity \<and>
        lower (py_str L (dict_get integrity ''algorithm'' (JStr ''sha256''))) = ''sha256'' \<and>
        map_of integrity ''hashed_files'' = Some (JObj items) \<and>
        (\<forall>item \<in> set items. fst item \<in> set (namelist z) \<longrightarrow>
           (\<exists>d. zread z (fst item) = Inr d)) \<and>
        i < length items \<and> items ! i = (relpath, JObj kv)"
  then have ne: "items \<noteq> []" by auto
  from h have m: "map Inr (snd (builtin_verify_aifm L ZipFile p)) = map (entry_check L z) items"
    using builtin_checks_map [where ZipFile = ZipFile and p = p and z = z and raw = raw
        and L = L and manifest = manifest and integrity = integrity and items = items] ne
    by blast
  then have len: "length (snd (builtin_verify_aifm L ZipFile p)) = length items"
    using length_map by metis
  from m have "map Inr (snd (builtin_verify_aifm L ZipFile p)) ! i = map (entry_check L z) items ! i"
    by simp
  with h len have "Inr (snd (builtin_verify_aifm L ZipFile p) ! i) = entry_check L z (relpath, JObj kv)"
    by simp
  then show "snd (builtin_verify_aifm L ZipFile p) ! i =
          mk_check False relpath
            (''bytes mismatch: '' @ str_int (int (length data)) @ '' != '' @ str_int n)"
    by (simp add: entry_check_size_mismatch [OF assms])
qed

text \<open>C5 on the cover of \<^verbatim>\<open>good.aifm\<close>: three bytes where five are declared, and a
  declared digest that differs as well.\<close>

theorem size_mismatch_before_digest_witness:
  "entry_check example_lib (example_zip 1 True)
     (''metadata/cover.png'', JObj [(''sha256'', JStr ''cd''), (''bytes'', JInt 5)]) =
     Inr (mk_check False ''metadata/cover.png'' ''bytes mismatch: 3 != 5'')"
proof -
  have a: "''metadata/cover.png'' \<in> set (namelist (example_zip 1 True))"
    by (simp add: example_zip_def example_names_def)
  have b: "zread (example_zip 1 True) ''metadata/cover.png'' = Inr [0, 0, 0]"
    by (simp add: example_zip_def)
  have c: "map_of [(''sha256'', JStr ''cd''), (''bytes'', JInt 5)] ''bytes'' = Some (JInt 5)"
    by simp
  have d: "int (length [0::8 word, 0, 0]) \<noteq> 5"
    by simp
  from size_mismatch_before_digest [OF a b c d, of example_lib]
  have "entry_check (example_lib\<lparr>sha256_hexdigest := sha256_hexdigest example_lib\<rparr>)
          (example_zip 1 True)
          (''metadata/cover.png'', JObj [(''sha256'', JStr ''cd''), (''bytes'', JInt 5)]) =
        Inr (mk_check False ''metadata/cover.png''
               (''bytes mismatch: '' @ str_int (int (length [0::8 word, 0, 0])) @ '' != '' @ str_int 5))"
    by blast
  then show ?thesis
    by (simp add: example_str_int_3 example_str_int_5)
qed



text \<open>
  C8 (as amended). Without an external verifier, whenever opening the container or
  anything inside the verifier's \<^verbatim>\<open>with\<close> block raises (reading the manifest member, for
  one), \<^verbatim>\<open>get_track_info\<close> returns an outcome with ok false, status TAMPERED, and one
  failing detail keyed \<^verbatim>\<open>builtin_verify\<close> that carries the message of the exception.
\<close>

theorem builtin_failure_is_tampered:
  assumes "info_cache p = None"
  shows
    "((case ZipFile p of Inl e \<Rightarrow> Inl e | Inr z \<Rightarrow> verify_opened L z) = Inl e \<longrightarrow>
        info_verify (fst (get_track_info L None ZipFile info_cache p)) =
          \<lparr>v_ok = False, v_status = ''TAMPERED'',
           v_details = [\<lparr>d_ok = False, d_path = ''builtin_verify'', d_reason = exc_str e\<rparr>],
           v_available = True, v_engine = ''builtin''\<rparr>) \<and>
     (ZipFile p = Inl e \<longrightarrow>
        (case ZipFile p of Inl e \<Rightarrow> Inl e | Inr z \<Rightarrow> verify_opened L z) = Inl e) \<and>
     (\<forall>z. ZipFile p = Inr z \<and> ''manifest.json'' \<in> set (namelist z) \<and>
          zread z ''manifest.json'' = Inl e \<longrightarrow>
        (case ZipFile p of Inl e \<Rightarrow> Inl e | Inr z \<Rightarrow> verify_opened L z) = Inl e)"
  using assms track_verify_builtin_raise [where ZipFile = ZipFile and p = p and L = L and e = e]
  by (auto simp add: get_track_info_verify verify_opened_def)

text \<open>C8 on a path that is not a zip file.\<close>

theorem builtin_failure_is_tampered_witness:
  "info_verify (fst (get_track_info example_lib None example_fs Map.empty ''notes.txt'')) =
     \<lparr>v_ok = False, v_status = ''TAMPERED'',
      v_details = [\<lparr>d_ok = False, d_path = ''builtin_verify'',
                    d_reason = ''File is not a zip file''\<rparr>],
      v_available = True, v_engine = ''builtin''\<rparr>"
proof -
  have c: "(Map.empty :: string \<rightharpoonup> track_info) ''notes.txt'' = None"
    by simp
  have o: "example_fs ''notes.txt'' = Inl (PyException ''File is not a zip file'')"
    by (simp add: example_fs_def)
  from builtin_failure_is_tampered
         [where info_cache = Map.empty and ZipFile = example_fs and p = "''notes.txt''"
            and e = "PyException ''File is not a zip file''" and L = example_lib, OF c] o
  show ?thesis by simp
qed

text \<open>
  C8 as stated fails: for a path that is not a zip file the status is TAMPERED, which is
  neither ERROR nor UNKNOWN.
\<close>

theorem builtin_failure_status_counterexample:
  "v_status (info_verify (fst (get_track_info example_lib None example_fs Map.empty ''notes.txt''))) =
     ''TAMPERED'' \<and>
   v_status (info_verify (fst (get_track_info example_lib None example_fs Map.empty ''notes.txt''))) \<noteq>
     ''ERROR'' \<and>
   v_status (info_verify (fst (get_track_info example_lib None example_fs Map.empty ''notes.txt''))) \<noteq>
     ''UNKNOWN''"
  by (simp add: get_track_info_def Let_def track_verify_def builtin_verify_aifm_def example_fs_def
      normalize_verify_def builtin_detail_def mk_check_def)

text \<open>
  C10 fails on the code for a declared size that is a JSON boolean: \<^verbatim>\<open>isinstance(True, int)\<close>
  holds in Python, so the size check is not skipped. In \<^verbatim>\<open>bool.aifm\<close> the only declared
  entry is \<^verbatim>\<open>{"bytes": true}\<close> for a member of two bytes that exists; the entry fails with a
  bytes mismatch. (For every other value that is not a JSON integer the check is skipped:
  \<open>entry_check_nothing_declared\<close>.)
\<close>

theorem bool_size_is_compared:
  "''payload/a.wav'' \<in> set (namelist (example_zip 3 True)) \<and>
   safe_get example_manifest_bool ''integrity.hashed_files'' JNull =
     JObj [(''payload/a.wav'', JObj [(''bytes'', JBool True)])] \<and>
   builtin_verify_aifm example_lib example_fs ''bool.aifm'' =
     (False, [mk_check False ''payload/a.wav'' ''bytes mismatch: 2 != True''])"
  by code_simp

end
